theory Spec2Isabelle
  imports Main "HOL-Library.Word" "HOL-Library.Signed_Division" "HOL-Library.Monad_Syntax"
begin

section \<open>Data model\<close>

text \<open>
  The consensus node of \<^verbatim>\<open>raft/raft.go\<close>, its log (\<^verbatim>\<open>RaftLog\<close>, the second half of
  the same file) and the message constructors of \<^verbatim>\<open>raft/msg.go\<close>.

  Go's \<^verbatim>\<open>uint64\<close> is a 64-bit word: \<open>+\<close> and \<open>-\<close> wrap, \<open><\<close>, \<open>min\<close> and \<open>max\<close>
  compare unsigned. Go's \<^verbatim>\<open>int\<close> (the tick counters) is taken as 64 bits wide; it is
  stored as a word and compared through \<open>sint\<close>.

  A Go panic (\<^verbatim>\<open>log.Panicf\<close>, an index out of range, a nil dereference) is the
  value \<open>None\<close>; a function that cannot panic returns its result directly. An
  \<^verbatim>\<open>error\<close> returned as a value is the left summand of a sum.

  Logging calls (\<^verbatim>\<open>log.Infof\<close>, \<^verbatim>\<open>log.Debugf\<close>, \<^verbatim>\<open>fmt.Printf\<close>) have no effect on the
  state and are left out.
\<close>

type_synonym u64 = "64 word"
type_synonym goint = "64 word"

text \<open>\<^verbatim>\<open>const None uint64 = 0\<close>: the placeholder node id.\<close>

definition NoneId :: u64 where
  "NoneId = 0"

datatype StateType = StateFollower | StateCandidate | StateLeader

text \<open>The message types of \<^verbatim>\<open>eraftpb\<close>; \<^verbatim>\<open>MsgHup\<close> is the zero value.\<close>

datatype MessageType =
    MsgHup | MsgBeat | MsgPropose | MsgAppend | MsgAppendResponse
  | MsgRequestVote | MsgRequestVoteResponse | MsgSnapshot
  | MsgHeartbeat | MsgHeartbeatResponse | MsgTransferLeader | MsgTimeoutNow

datatype error = ErrCompacted | ErrUnavailable | ErrSnapshotTemporarilyUnavailable | ErrOther

text \<open>
  \<^verbatim>\<open>pb.Entry\<close>. Field names that several Go structs share carry the struct's name
  here: \<open>ent_Term\<close> is \<^verbatim>\<open>Entry.Term\<close>, \<open>msg_Term\<close> is \<^verbatim>\<open>Message.Term\<close>, \<open>Term\<close> is
  \<^verbatim>\<open>Raft.Term\<close>.
\<close>

record Entry =
  ent_Term :: u64
  ent_Index :: u64
  ent_Data :: "8 word list"

record SnapshotPb =
  snap_Index :: u64
  snap_Term :: u64
  snap_Data :: "8 word list"

record Message =
  MsgType :: MessageType
  To :: u64
  From :: u64
  msg_Term :: u64
  LogTerm :: u64
  msg_Index :: u64
  Entries :: "Entry list"
  Commit :: u64
  Snapshot :: "SnapshotPb option"
  Reject :: bool

text \<open>The zero value of \<^verbatim>\<open>pb.Message\<close>, which every struct literal starts from.\<close>

definition Message0 :: Message where
  "Message0 = \<lparr>MsgType = MsgHup, To = 0, From = 0, msg_Term = 0, LogTerm = 0,
     msg_Index = 0, Entries = [], Commit = 0, Snapshot = None, Reject = False\<rparr>"

record HardState =
  hs_Term :: u64
  hs_Vote :: u64
  hs_Commit :: u64

text \<open>
  The \<^verbatim>\<open>Storage\<close> interface is implemented outside this package. A storage is the
  results its methods give: a returned error is \<open>Inl\<close>.
\<close>

record Storage =
  st_InitialState :: "error + HardState"
  st_FirstIndex :: "error + u64"
  st_LastIndex :: "error + u64"
  st_Entries :: "u64 \<Rightarrow> u64 \<Rightarrow> error + Entry list"
  st_Term :: "u64 \<Rightarrow> error + u64"
  st_Snapshot :: "error + SnapshotPb"

record Progress =
  Match :: u64
  Next :: u64

record RaftLog =
  storage :: Storage
  committed :: u64
  applied :: u64
  stabled :: u64
  entries :: "Entry list"
  start :: u64

text \<open>
  \<^verbatim>\<open>type stepFunc func(r *Raft, m pb.Message) error\<close>: the field \<^verbatim>\<open>step\<close> only ever holds
  one of the three step functions, or nil before the first role transition.
\<close>

datatype stepFunc = StepNil | StepFollower | StepCandidate | StepLeader

record Raft =
  rid :: u64
  peers :: "u64 list"
  step :: stepFunc
  Term :: u64
  Vote :: u64
  RaftLog :: RaftLog
  Prs :: "u64 \<rightharpoonup> Progress"
  State :: StateType
  votes :: "u64 \<rightharpoonup> bool"
  msgs :: "Message list"
  Lead :: u64
  heartbeatTimeout :: goint
  electionTimeout :: goint
  heartbeatElapsed :: goint
  electionElapsed :: goint
  leadTransferee :: u64
  PendingConfIndex :: u64


text \<open>
  Three functions of the package that \<^verbatim>\<open>raft.go\<close> calls are defined in none of its
  files at hand: \<^verbatim>\<open>nodes(r)\<close> (the ids \<^verbatim>\<open>Visit\<close> and \<^verbatim>\<open>hup\<close> iterate over),
  \<^verbatim>\<open>handleVote\<close> and \<^verbatim>\<open>poll\<close>. They are parameters of the model: every function that
  reaches one of them takes the record \<open>h\<close>, and a theorem about such a function holds
  for every value of \<open>h\<close>. Of \<^verbatim>\<open>poll\<close>'s three results the two counts are only logged;
  the model keeps the outcome.
\<close>

datatype VoteResult = VotePending | VoteLost | VoteWon

record Helpers =
  nodes :: "Raft \<Rightarrow> u64 list"
  handleVote :: "Raft \<Rightarrow> Message \<Rightarrow> Raft option"
  poll :: "Raft \<Rightarrow> u64 \<Rightarrow> MessageType \<Rightarrow> bool \<Rightarrow> (VoteResult \<times> Raft) option"

section \<open>The log\<close>


text \<open>\<^verbatim>\<open>l.entries[i]\<close>: an index out of range panics.\<close>

definition at_index :: "'a list \<Rightarrow> nat \<Rightarrow> 'a option" where
  "at_index xs i = (if i < length xs then Some (xs ! i) else None)"

text \<open>\<^verbatim>\<open>LastLog\<close>: \<^verbatim>\<open>l.entries[len(l.entries)-1]\<close>, a panic on an empty slice.\<close>

definition LastLog :: "RaftLog \<Rightarrow> Entry option" where
  "LastLog l = (if entries l = [] then None else Some (last (entries l)))"

definition LastIndex :: "RaftLog \<Rightarrow> u64 option" where
  "LastIndex l = map_option ent_Index (LastLog l)"

definition NextIndex :: "RaftLog \<Rightarrow> u64 option" where
  "NextIndex l = map_option (\<lambda>e. ent_Index e + 1) (LastLog l)"

definition LastTerm :: "RaftLog \<Rightarrow> u64 option" where
  "LastTerm l = map_option ent_Term (LastLog l)"

definition First :: "RaftLog \<Rightarrow> u64" where
  "First l = start l + 1"

text \<open>
  \<^verbatim>\<open>entryAt\<close>: the sentinel at \<^verbatim>\<open>start\<close>, \<^verbatim>\<open>ErrCompacted\<close> below \<^verbatim>\<open>First()\<close>,
  \<^verbatim>\<open>ErrUnavailable\<close> above \<^verbatim>\<open>LastIndex()\<close>, else \<^verbatim>\<open>entries[index-start]\<close>.
\<close>

definition entryAt :: "RaftLog \<Rightarrow> u64 \<Rightarrow> (error + Entry) option" where
  "entryAt l index =
     (if index = start l then map_option Inr (at_index (entries l) 0)
      else if index < First l then Some (Inl ErrCompacted)
      else do {
        li \<leftarrow> LastIndex l;
        if index > li then Some (Inl ErrUnavailable)
        else map_option Inr (at_index (entries l) (unat (index - start l)))
      })"

text \<open>\<^verbatim>\<open>Term(i)\<close> of the log.\<close>

definition log_Term :: "RaftLog \<Rightarrow> u64 \<Rightarrow> (error + u64) option" where
  "log_Term l i = do {
     at \<leftarrow> entryAt l i;
     Some (case at of Inl err \<Rightarrow> Inl err | Inr e \<Rightarrow> Inr (ent_Term e))
   }"

text \<open>\<^verbatim>\<open>append\<close>: a blind append, returning the new \<^verbatim>\<open>LastIndex()\<close>.\<close>

definition log_append :: "RaftLog \<Rightarrow> Entry list \<Rightarrow> (u64 \<times> RaftLog) option" where
  "log_append l es = (let l' = l\<lparr>entries := entries l @ es\<rparr> in
     do { li \<leftarrow> LastIndex l'; Some (li, l') })"

definition Contain :: "RaftLog \<Rightarrow> u64 \<Rightarrow> bool option" where
  "Contain l index =
     (if First l \<le> index then do { li \<leftarrow> LastIndex l; Some (index \<le> li) }
      else Some False)"

text \<open>
  \<^verbatim>\<open>IsConflict\<close>: \<^verbatim>\<open>!l.Contain(index) || l.entries[index-l.start].Term != term\<close>; the
  right operand is only evaluated when the index is contained.
\<close>

definition IsConflict :: "RaftLog \<Rightarrow> u64 \<Rightarrow> u64 \<Rightarrow> bool option" where
  "IsConflict l index term = do {
     c \<leftarrow> Contain l index;
     if \<not> c then Some True
     else do {
       e \<leftarrow> at_index (entries l) (unat (index - start l));
       Some (ent_Term e \<noteq> term)
     }
   }"

text \<open>
  \<^verbatim>\<open>truncate\<close>: \<^verbatim>\<open>l.entries = l.entries[:index-l.start]\<close>, then
  \<^verbatim>\<open>l.stabled = min(l.stabled, l.LastIndex())\<close>. Go reslices up to the capacity of the
  slice, which is not part of this model: a bound beyond the length stops the model
  (\<open>None\<close>), as a bound beyond the capacity stops the program.
\<close>

definition truncate :: "RaftLog \<Rightarrow> u64 \<Rightarrow> RaftLog option" where
  "truncate l index =
     (let n = unat (index - start l) in
      if n > length (entries l) then None
      else (let l' = l\<lparr>entries := take n (entries l)\<rparr> in
        do { li \<leftarrow> LastIndex l'; Some (l'\<lparr>stabled := min (stabled l') li\<rparr>) }))"

definition updateCommitIndex :: "RaftLog \<Rightarrow> u64 \<Rightarrow> RaftLog" where
  "updateCommitIndex l commit = (if commit < committed l then l else l\<lparr>committed := commit\<rparr>)"

text \<open>
  \<^verbatim>\<open>slice(lo, hi)\<close>, both ends included; \<^verbatim>\<open>l.entries[lo : hi+1]\<close> panics when the bounds
  are out of order or beyond the slice.
\<close>

definition slice :: "RaftLog \<Rightarrow> u64 \<Rightarrow> u64 \<Rightarrow> Entry list option" where
  "slice l lo hi =
     (if hi < lo then Some []
      else if hi < First l then Some []
      else do {
        li \<leftarrow> LastIndex l;
        let lo1 = max lo (First l);
        let hi1 = min (max hi (First l)) li;
        let a = unat (lo1 - start l);
        let b = unat (hi1 - start l + 1);
        if a \<le> b \<and> b \<le> length (entries l) then Some (drop a (take b (entries l))) else None
      })"



section \<open>Messages\<close>

text \<open>
  \<^verbatim>\<open>send\<close> stamps the node's term and id on a message that has none and appends it
  to the outbound buffer.
\<close>

definition send :: "Raft \<Rightarrow> Message \<Rightarrow> Raft" where
  "send r m =
     (let m1 = (if msg_Term m = NoneId then m\<lparr>msg_Term := Term r\<rparr> else m);
          m2 = (if From m1 = NoneId then m1\<lparr>From := rid r\<rparr> else m1)
      in r\<lparr>msgs := msgs r @ [m2]\<rparr>)"

text \<open>The constructors of \<^verbatim>\<open>msg.go\<close>. Those that check the role panic otherwise.\<close>

definition NewHeartbeatMsg :: "Raft \<Rightarrow> u64 \<Rightarrow> Message option" where
  "NewHeartbeatMsg r to =
     (if State r \<noteq> StateLeader then None
      else Some (Message0\<lparr>MsgType := MsgHeartbeat, To := to, Commit := committed (RaftLog r)\<rparr>))"

definition NewRespHeartbeatMsg :: "Raft \<Rightarrow> u64 \<Rightarrow> Message" where
  "NewRespHeartbeatMsg r to = Message0\<lparr>MsgType := MsgHeartbeatResponse, To := to\<rparr>"

definition NewRequestVoteMsg :: "Raft \<Rightarrow> u64 \<Rightarrow> Message option" where
  "NewRequestVoteMsg r to =
     (if State r \<noteq> StateCandidate then None
      else do {
        lastLog \<leftarrow> LastLog (RaftLog r);
        Some (Message0\<lparr>MsgType := MsgRequestVote, To := to,
          LogTerm := ent_Term lastLog, msg_Index := ent_Index lastLog\<rparr>)
      })"

text \<open>\<^verbatim>\<open>raft.go\<close> calls this constructor \<^verbatim>\<open>NewResponseVoteMsg\<close>.\<close>

definition NewRespVoteMsg :: "Raft \<Rightarrow> u64 \<Rightarrow> bool \<Rightarrow> Message" where
  "NewRespVoteMsg r to reject =
     Message0\<lparr>MsgType := MsgRequestVoteResponse, To := to, From := rid r, Reject := reject\<rparr>"

text \<open>\<^verbatim>\<open>raft.go\<close> calls this constructor \<^verbatim>\<open>NewResponseAppendMsg\<close>.\<close>

definition NewRespAppendMsg :: "Raft \<Rightarrow> u64 \<Rightarrow> u64 \<Rightarrow> bool \<Rightarrow> Message" where
  "NewRespAppendMsg r to index reject =
     Message0\<lparr>MsgType := MsgAppendResponse, To := to, Reject := reject, msg_Index := index\<rparr>"

text \<open>
  \<^verbatim>\<open>NewAppendMsg\<close>: an append from the entry before \<^verbatim>\<open>Next\<close>; when that entry is
  compacted, the storage's snapshot, or a heartbeat while the snapshot is not ready.
  The log line of the compacted branch evaluates \<^verbatim>\<open>LastIndex()\<close>.
\<close>

definition NewAppendMsg :: "Raft \<Rightarrow> u64 \<Rightarrow> Message option" where
  "NewAppendMsg r to =
     (if State r \<noteq> StateLeader then None
      else do {
        pr \<leftarrow> Prs r to;
        prev \<leftarrow> entryAt (RaftLog r) (Next pr - 1);
        case prev of
          Inl err \<Rightarrow>
            (if err = ErrCompacted then do {
               _ \<leftarrow> LastIndex (RaftLog r);
               case st_Snapshot (storage (RaftLog r)) of
                 Inl serr \<Rightarrow>
                   (if serr = ErrSnapshotTemporarilyUnavailable then NewHeartbeatMsg r to
                    else None)
               | Inr snapshot \<Rightarrow>
                   Some (Message0\<lparr>MsgType := MsgSnapshot, To := to, Snapshot := Some snapshot\<rparr>)
             } else None)
        | Inr prevLog \<Rightarrow> do {
            li \<leftarrow> LastIndex (RaftLog r);
            es \<leftarrow> slice (RaftLog r) (Next pr) li;
            Some (Message0\<lparr>MsgType := MsgAppend, To := to, msg_Index := ent_Index prevLog,
              LogTerm := ent_Term prevLog, Commit := committed (RaftLog r), Entries := es\<rparr>)
          }
      })"

text \<open>
  Modelled from the spec: the two-argument \<^verbatim>\<open>NewHeartbeatMsg(to, commit)\<close> that
  \<^verbatim>\<open>sendHeartbeat\<close> calls. \<^verbatim>\<open>msg.go\<close> holds the one-argument constructor above, which
  carries \<^verbatim>\<open>r.RaftLog.committed\<close>; the spec's heartbeat is
  \<^verbatim>\<open>Heartbeat{commit = min(match[i], self.committed)}\<close>, so the second argument is the
  commit the message carries. The role check is the one-argument constructor's.
\<close>

definition NewHeartbeatMsgCommit :: "Raft \<Rightarrow> u64 \<Rightarrow> u64 \<Rightarrow> Message option" where
  "NewHeartbeatMsgCommit r to commit =
     (if State r \<noteq> StateLeader then None
      else Some (Message0\<lparr>MsgType := MsgHeartbeat, To := to, Commit := commit\<rparr>))"

section \<open>Role transitions\<close>

definition mayUpdateIndex :: "Progress \<Rightarrow> u64 \<Rightarrow> Progress" where
  "mayUpdateIndex p index =
     (let p1 = (if index > Match p then p\<lparr>Match := index\<rparr> else p)
      in p1\<lparr>Next := max (Match p1 + 1) (Next p1)\<rparr>)"

definition becomeFollower :: "Raft \<Rightarrow> u64 \<Rightarrow> u64 \<Rightarrow> Raft" where
  "becomeFollower r term lead =
     r\<lparr>Term := term, Vote := NoneId, Lead := lead, electionElapsed := 0,
       State := StateFollower, step := StepFollower\<rparr>"

definition becomeCandidate :: "Raft \<Rightarrow> Raft" where
  "becomeCandidate r =
     r\<lparr>State := StateCandidate, step := StepCandidate, Term := Term r + 1,
       Vote := rid r, votes := Map.empty\<rparr>"

text \<open>
  \<^verbatim>\<open>leaderAppendEntries\<close> stamps each entry with the leader's term and the indices
  after the last one, appends them, sends an append response to the node itself and
  raises the node's own progress. \<^verbatim>\<open>r.Prs[r.id]\<close> is nil when the node is not among
  its peers.
\<close>

definition stamp :: "u64 \<Rightarrow> u64 \<Rightarrow> Entry list \<Rightarrow> Entry list" where
  "stamp term li es =
     map (\<lambda>(i, e). e\<lparr>ent_Term := term, ent_Index := li + 1 + of_nat i\<rparr>) (enumerate 0 es)"

definition leaderAppendEntries :: "Raft \<Rightarrow> Entry list \<Rightarrow> (u64 \<times> Raft) option" where
  "leaderAppendEntries r es =
     (if State r \<noteq> StateLeader then None
      else do {
        li \<leftarrow> LastIndex (RaftLog r);
        (li', l') \<leftarrow> log_append (RaftLog r) (stamp (Term r) li es);
        let r1 = send (r\<lparr>RaftLog := l'\<rparr>)
                   (Message0\<lparr>MsgType := MsgAppendResponse, To := rid r, msg_Index := li',
                      Reject := False\<rparr>);
        pr \<leftarrow> Prs r1 (rid r1);
        Some (li', r1\<lparr>Prs := (Prs r1)(rid r1 \<mapsto> mayUpdateIndex pr li')\<rparr>)
      })"

definition becomeLeader :: "Raft \<Rightarrow> Raft option" where
  "becomeLeader r =
     (if Vote r = NoneId \<or> State r \<noteq> StateCandidate then None
      else (let r1 = r\<lparr>State := StateLeader, step := StepLeader, electionElapsed := 0,
                       Prs := (\<lambda>k. map_option (\<lambda>pr. pr\<lparr>Next := Match pr + 1\<rparr>) (Prs r k)),
                       Lead := rid r\<rparr>
            in map_option snd
                 (leaderAppendEntries r1 [\<lparr>ent_Term = Term r1, ent_Index = 1, ent_Data = []\<rparr>])))"


section \<open>Sending to peers\<close>

text \<open>
  \<^verbatim>\<open>Visit\<close> calls \<^verbatim>\<open>f\<close> on each id of \<^verbatim>\<open>nodes(r)\<close>, skipping the node's own id unless
  \<^verbatim>\<open>sendMe\<close>. The first argument is the list \<^verbatim>\<open>nodes(r)\<close> returned; \<^verbatim>\<open>f\<close> is the closure,
  which changes the node.
\<close>

fun Visit :: "u64 list \<Rightarrow> (Raft \<Rightarrow> u64 \<Rightarrow> Raft option) \<Rightarrow> bool \<Rightarrow> Raft \<Rightarrow> Raft option" where
  "Visit [] f sendMe r = Some r"
| "Visit (to # ids) f sendMe r =
     (if rid r = to \<and> sendMe = False then Visit ids f sendMe r
      else do { r' \<leftarrow> f r to; Visit ids f sendMe r' })"

definition sendAppend :: "Raft \<Rightarrow> u64 \<Rightarrow> (bool \<times> Raft) option" where
  "sendAppend r to =
     (if to = rid r then None
      else do {
        pr \<leftarrow> Prs r to;
        ni \<leftarrow> NextIndex (RaftLog r);
        if Next pr = ni then Some (True, r)
        else do { m \<leftarrow> NewAppendMsg r to; Some (False, send r m) }
      })"

definition sendHeartbeat :: "Raft \<Rightarrow> u64 \<Rightarrow> Raft option" where
  "sendHeartbeat r to =
     (if to = rid r then None
      else do {
        pr \<leftarrow> Prs r to;
        let commit = min (Match pr) (committed (RaftLog r));
        msg \<leftarrow> NewHeartbeatMsgCommit r to commit;
        Some (send r msg)
      })"

definition bcastAppend :: "Helpers \<Rightarrow> Raft \<Rightarrow> Raft option" where
  "bcastAppend h r = Visit (nodes h r) (\<lambda>r to. map_option snd (sendAppend r to)) False r"

definition handleProse :: "Helpers \<Rightarrow> Raft \<Rightarrow> Message \<Rightarrow> Raft option" where
  "handleProse h r m = do {
     (li, r1) \<leftarrow> leaderAppendEntries r (Entries m);
     bcastAppend h r1
   }"

section \<open>Handlers\<close>

definition resetElectionTimeOut :: "Raft \<Rightarrow> Raft" where
  "resetElectionTimeOut r = r\<lparr>electionElapsed := 0\<rparr>"

definition handleHeartbeat :: "Raft \<Rightarrow> Message \<Rightarrow> Raft" where
  "handleHeartbeat r m = becomeFollower r (msg_Term m) (To m)"

text \<open>
  The loop of \<^verbatim>\<open>appendEntries\<close> over the incoming entries: a conflicting entry
  truncates the log from its index and is appended, a contained one is skipped.
\<close>

fun appendEntries_loop :: "RaftLog \<Rightarrow> Entry list \<Rightarrow> RaftLog option" where
  "appendEntries_loop l [] = Some l"
| "appendEntries_loop l (entry # es) = do {
     c \<leftarrow> IsConflict l (ent_Index entry) (ent_Term entry);
     if c then do {
       l1 \<leftarrow> truncate l (ent_Index entry);
       (li, l2) \<leftarrow> log_append l1 [entry];
       appendEntries_loop l2 es
     } else do {
       k \<leftarrow> Contain l (ent_Index entry);
       if k then appendEntries_loop l es
       else do { (li, l2) \<leftarrow> log_append l [entry]; appendEntries_loop l2 es }
     }
   }"

definition appendEntries :: "Raft \<Rightarrow> Entry list \<Rightarrow> (u64 \<times> Raft) option" where
  "appendEntries r es = do {
     l \<leftarrow> appendEntries_loop (RaftLog r) es;
     li \<leftarrow> LastIndex l;
     Some (li, r\<lparr>RaftLog := l\<rparr>)
   }"

text \<open>
  Modelled from the spec: the error value \<^verbatim>\<open>LogIsCompacted\<close> that
  \<^verbatim>\<open>handleAppendEntries\<close> compares with; the log returns \<^verbatim>\<open>ErrCompacted\<close> for an index
  below its first one, which is the case the spec's "missing/compacted" names.
\<close>

definition LogIsCompacted :: error where
  "LogIsCompacted = ErrCompacted"

definition handleAppendEntries :: "Raft \<Rightarrow> Message \<Rightarrow> Raft option" where
  "handleAppendEntries r m = do {
     at \<leftarrow> entryAt (RaftLog r) (msg_Index m);
     case at of
       Inl err \<Rightarrow>
         (if err = LogIsCompacted
          then Some (send r (NewRespAppendMsg r (From m) (committed (RaftLog r)) False))
          else Some (send r (NewRespAppendMsg r (From m) 0 True)))
     | Inr prevLog \<Rightarrow>
         (if ent_Term prevLog \<noteq> LogTerm m
          then Some (send r (NewRespAppendMsg r (From m) 0 True))
          else do {
            (newIndex, r2) \<leftarrow> appendEntries (resetElectionTimeOut r) (Entries m);
            let myCommit = committed (RaftLog r2);
            let r3 = (if myCommit < Commit m
                      then r2\<lparr>RaftLog := updateCommitIndex (RaftLog r2) (min newIndex (Commit m))\<rparr>
                      else r2);
            let index = msg_Index m + of_nat (length (Entries m));
            Some (send r3 (NewRespAppendMsg r3 (From m) index False))
          })
   }"

section \<open>Step functions\<close>

definition stepFollower :: "Helpers \<Rightarrow> Raft \<Rightarrow> Message \<Rightarrow> Raft option" where
  "stepFollower h r m =
     (if State r \<noteq> StateFollower then None
      else case MsgType m of
        MsgBeat \<Rightarrow> Some (handleHeartbeat r m)
      | MsgRequestVote \<Rightarrow> handleVote h r m
      | MsgAppend \<Rightarrow> handleAppendEntries r m
      | _ \<Rightarrow> Some r)"

definition stepCandidate :: "Helpers \<Rightarrow> Raft \<Rightarrow> Message \<Rightarrow> Raft option" where
  "stepCandidate h r m =
     (if State r \<noteq> StateCandidate then None
      else case MsgType m of
        MsgBeat \<Rightarrow> Some (handleHeartbeat r m)
      | MsgRequestVoteResponse \<Rightarrow> do {
          (res, r1) \<leftarrow> poll h r (From m) (MsgType m) (\<not> Reject m);
          case res of
            VoteWon \<Rightarrow>
              (if State r1 = StateCandidate
               then do { r2 \<leftarrow> becomeLeader r1; bcastAppend h r2 }
               else Some r1)
          | VoteLost \<Rightarrow> Some (becomeFollower r1 (Term r1) NoneId)
          | VotePending \<Rightarrow> Some r1
        }
      | _ \<Rightarrow> Some r)"

text \<open>
  \<^verbatim>\<open>stepLeader\<close>. On an append response \<^verbatim>\<open>pr := r.Prs[m.From]\<close> is only dereferenced
  when the response does not reject.
\<close>

definition stepLeader :: "Helpers \<Rightarrow> Raft \<Rightarrow> Message \<Rightarrow> Raft option" where
  "stepLeader h r m =
     (if State r \<noteq> StateLeader then None
      else case MsgType m of
        MsgHeartbeat \<Rightarrow> Visit (nodes h r) sendHeartbeat False r
      | MsgPropose \<Rightarrow> handleProse h r m
      | MsgAppendResponse \<Rightarrow>
          (if Reject m = False then do {
             pr \<leftarrow> Prs r (From m);
             let pr1 = pr\<lparr>Next := max (Next pr) (msg_Index m + 1)\<rparr>;
             let pr2 = pr1\<lparr>Match := max (Match pr1) (msg_Index m)\<rparr>;
             Some (r\<lparr>Prs := (Prs r)(From m \<mapsto> pr2)\<rparr>)
           } else Some r)
      | _ \<Rightarrow> Some r)"

text \<open>A call through the field \<^verbatim>\<open>r.step\<close>; a nil function panics.\<close>

definition call_step :: "Helpers \<Rightarrow> Raft \<Rightarrow> Message \<Rightarrow> Raft option" where
  "call_step h r m =
     (case step r of
        StepNil \<Rightarrow> None
      | StepFollower \<Rightarrow> stepFollower h r m
      | StepCandidate \<Rightarrow> stepCandidate h r m
      | StepLeader \<Rightarrow> stepLeader h r m)"

text \<open>
  \<^verbatim>\<open>hup\<close>: become candidate, then for each id of \<^verbatim>\<open>nodes(r)\<close> either step the node's own
  vote or send a vote request.
\<close>

fun hup_loop :: "Helpers \<Rightarrow> u64 list \<Rightarrow> Raft \<Rightarrow> Raft option" where
  "hup_loop h [] r = Some r"
| "hup_loop h (i # ids) r =
     (if i = rid r then do {
        r1 \<leftarrow> call_step h r (NewRespVoteMsg r (rid r) False);
        hup_loop h ids r1
      } else do {
        m \<leftarrow> NewRequestVoteMsg r i;
        hup_loop h ids (send r m)
      })"

definition hup :: "Helpers \<Rightarrow> Raft \<Rightarrow> Raft option" where
  "hup h r =
     (if State r = StateLeader then Some r
      else (let r1 = becomeCandidate r in hup_loop h (nodes h r1) r1))"

text \<open>
  \<^verbatim>\<open>Step\<close>: a local message (term 0) is dispatched as it is, a message of a lower term
  is dropped, one of a higher term first makes the node a follower of that term.
\<close>

definition Step :: "Helpers \<Rightarrow> Raft \<Rightarrow> Message \<Rightarrow> Raft option" where
  "Step h r m =
     (if msg_Term m \<noteq> 0 \<and> Term r > msg_Term m then Some r
      else (let r1 = (if msg_Term m \<noteq> 0 \<and> Term r < msg_Term m
                      then (if MsgType m = MsgAppend \<or> MsgType m = MsgHeartbeat
                               \<or> MsgType m = MsgSnapshot
                            then becomeFollower r (msg_Term m) (From m)
                            else becomeFollower r (msg_Term m) NoneId)
                      else r)
            in case MsgType m of
                 MsgHup \<Rightarrow> hup h r1
               | _ \<Rightarrow> call_step h r1 m))"

text \<open>
  \<^verbatim>\<open>tick\<close>: both counters advance; a leader whose heartbeat is due steps a local
  \<^verbatim>\<open>MsgBeat\<close>, any other node whose election is due calls \<^verbatim>\<open>becomeCandidate\<close>.
\<close>

definition tick :: "Helpers \<Rightarrow> Raft \<Rightarrow> Raft option" where
  "tick h r =
     (let r1 = r\<lparr>heartbeatElapsed := heartbeatElapsed r + 1,
                 electionElapsed := electionElapsed r + 1\<rparr>
      in if State r1 = StateLeader
         then (if sint (heartbeatElapsed r1) \<ge> sint (heartbeatTimeout r1)
               then call_step h r1 (Message0\<lparr>MsgType := MsgBeat\<rparr>)
               else Some r1)
         else if sint (electionElapsed r1) \<ge> sint (electionTimeout r1)
              then Some (becomeCandidate r1)
              else Some r1)"

section \<open>Construction\<close>





section \<open>Example states\<close>

text \<open>
  A storage holding one entry of term 1 and the hard state (term 5, vote 2, commit 1),
  and nodes of the three-peer cluster \<open>{1, 2, 3}\<close> built on it. They are the concrete
  inputs at which the theorems below are instantiated.
\<close>

definition demo_storage :: Storage where
  "demo_storage =
     \<lparr>st_InitialState = Inr \<lparr>hs_Term = 5, hs_Vote = 2, hs_Commit = 1\<rparr>,
      st_FirstIndex = Inr 1,
      st_LastIndex = Inr 1,
      st_Entries = (\<lambda>lo hi. if lo = 1 \<and> hi = 2
                     then Inr [\<lparr>ent_Term = 1, ent_Index = 1, ent_Data = []\<rparr>]
                     else Inl ErrUnavailable),
      st_Term = (\<lambda>i. if i = 0 then Inr 0 else if i = 1 then Inr 1 else Inl ErrUnavailable),
      st_Snapshot = Inl ErrSnapshotTemporarilyUnavailable\<rparr>"


definition demo_log :: RaftLog where
  "demo_log = \<lparr>storage = demo_storage, committed = 0, applied = 0, stabled = 1,
     entries = [\<lparr>ent_Term = 0, ent_Index = 0, ent_Data = []\<rparr>,
                \<lparr>ent_Term = 1, ent_Index = 1, ent_Data = []\<rparr>],
     start = 0\<rparr>"

definition demo_helpers :: Helpers where
  "demo_helpers = \<lparr>nodes = peers, handleVote = (\<lambda>r m. Some r),
     poll = (\<lambda>r from t granted. Some (VotePending, r))\<rparr>"

text \<open>A candidate of term 2 that has voted for itself; peer 3 was matched earlier.\<close>

definition demo_candidate :: Raft where
  "demo_candidate = \<lparr>rid = 1, peers = [1, 2, 3], step = StepCandidate, Term = 2, Vote = 1,
     RaftLog = demo_log,
     Prs = [1 \<mapsto> \<lparr>Match = 0, Next = 0\<rparr>, 2 \<mapsto> \<lparr>Match = 0, Next = 0\<rparr>,
            3 \<mapsto> \<lparr>Match = 1, Next = 2\<rparr>],
     State = StateCandidate, votes = Map.empty, msgs = [], Lead = 0,
     heartbeatTimeout = 1, electionTimeout = 10, heartbeatElapsed = 0, electionElapsed = 0,
     leadTransferee = 0, PendingConfIndex = 0\<rparr>"

text \<open>A leader of term 1 whose only entry, of its own term, is on no other peer yet.\<close>

definition demo_leader :: Raft where
  "demo_leader = \<lparr>rid = 1, peers = [1, 2, 3], step = StepLeader, Term = 1, Vote = 1,
     RaftLog = demo_log,
     Prs = [1 \<mapsto> \<lparr>Match = 1, Next = 2\<rparr>, 2 \<mapsto> \<lparr>Match = 0, Next = 1\<rparr>,
            3 \<mapsto> \<lparr>Match = 0, Next = 1\<rparr>],
     State = StateLeader, votes = Map.empty, msgs = [], Lead = 1,
     heartbeatTimeout = 1, electionTimeout = 10, heartbeatElapsed = 0, electionElapsed = 0,
     leadTransferee = 0, PendingConfIndex = 0\<rparr>"

definition demo_propose :: Message where
  "demo_propose = Message0\<lparr>MsgType := MsgPropose,
     Entries := [\<lparr>ent_Term = 0, ent_Index = 0, ent_Data = [7]\<rparr>]\<rparr>"

definition demo_accept :: Message where
  "demo_accept = Message0\<lparr>MsgType := MsgAppendResponse, To := 1, From := 2, msg_Term := 1,
     msg_Index := 1, Reject := False\<rparr>"




text \<open>
  A follower (node 3) at term 5 that has voted for node 2, knows no leader, and is one
  tick short of its election timeout.
\<close>

definition demo_follower :: Raft where
  "demo_follower = \<lparr>rid = 3, peers = [1, 2, 3], step = StepFollower, Term = 5, Vote = 2,
     RaftLog = demo_log,
     Prs = [1 \<mapsto> \<lparr>Match = 0, Next = 0\<rparr>, 2 \<mapsto> \<lparr>Match = 0, Next = 0\<rparr>,
            3 \<mapsto> \<lparr>Match = 0, Next = 0\<rparr>],
     State = StateFollower, votes = Map.empty, msgs = [], Lead = 0,
     heartbeatTimeout = 1, electionTimeout = 10, heartbeatElapsed = 0, electionElapsed = 9,
     leadTransferee = 0, PendingConfIndex = 0\<rparr>"

text \<open>A heartbeat of term 5 from node 1 to node 3, of the type the followers handle.\<close>

definition demo_beat :: Message where
  "demo_beat = Message0\<lparr>MsgType := MsgBeat, To := 3, From := 1, msg_Term := 5\<rparr>"



section \<open>The commit rule in the spec's words\<close>

text \<open>
  Section 4.3.6 of the spec: an index \<open>N\<close> may become the commit index when
  \<open>N > committed\<close>, a quorum of the peers (\<open>n div 2 + 1\<close> of them, the node included)
  has \<open>match \<ge> N\<close>, and the entry at \<open>N\<close> has the leader's term. This predicate follows
  the spec, not the source; it is what the source is compared with.
\<close>

definition quorum_matched :: "Raft \<Rightarrow> u64 \<Rightarrow> bool" where
  "quorum_matched r N =
     (length (filter (\<lambda>p. case Prs r p of None \<Rightarrow> False | Some pr \<Rightarrow> N \<le> Match pr) (peers r))
        \<ge> length (peers r) div 2 + 1)"

definition commit_eligible :: "Raft \<Rightarrow> u64 \<Rightarrow> bool" where
  "commit_eligible r N =
     (committed (RaftLog r) < N \<and> quorum_matched r N \<and>
      log_Term (RaftLog r) N = Some (Inr (Term r)))"

section \<open>Frame lemmas\<close>

lemma leaderAppendEntries_msgs:
  "leaderAppendEntries r es = Some (li, r') \<Longrightarrow>
   msgs r' = msgs r @ [Message0\<lparr>MsgType := MsgAppendResponse, To := rid r, From := rid r,
                         msg_Term := Term r, msg_Index := li, Reject := False\<rparr>]"
  by (auto simp: leaderAppendEntries_def send_def Let_def NoneId_def Message0_def log_append_def
      split: if_splits Option.bind_splits prod.splits)

lemma leaderAppendEntries_LastIndex:
  "leaderAppendEntries r es = Some (li, r') \<Longrightarrow> LastIndex (RaftLog r') = Some li"
  by (auto simp: leaderAppendEntries_def send_def Let_def log_append_def
      split: if_splits Option.bind_splits prod.splits)

lemma sendAppend_extends:
  "sendAppend r to = Some (b, r') \<Longrightarrow> \<exists>ms. r' = r\<lparr>msgs := msgs r @ ms\<rparr>"
proof -
  assume a: "sendAppend r to = Some (b, r')"
  show ?thesis
  proof (cases b)
    case True
    with a have "r' = r"
      by (auto simp: sendAppend_def split: if_splits Option.bind_splits)
    then have "r' = r\<lparr>msgs := msgs r @ []\<rparr>" by simp
    then show ?thesis by blast
  next
    case False
    with a obtain m where "r' = send r m"
      by (auto simp: sendAppend_def split: if_splits Option.bind_splits)
    then show ?thesis by (auto simp: send_def Let_def)
  qed
qed

text \<open>
  \<^verbatim>\<open>Visit\<close> with a closure that only sends: the node afterwards is the node before
  with more messages, each of which has the property the closure guarantees.
\<close>

lemma Visit_sends:
  assumes f: "\<And>r to r'. f r to = Some r' \<Longrightarrow>
                \<exists>ms. r' = r\<lparr>msgs := msgs r @ ms\<rparr> \<and> list_all (Q r) ms"
    and Q: "\<And>r ms. Q (r\<lparr>msgs := ms\<rparr>) = Q r"
  shows "Visit ids f sendMe r = Some r' \<Longrightarrow>
           \<exists>ms. r' = r\<lparr>msgs := msgs r @ ms\<rparr> \<and> list_all (Q r) ms"
proof (induction ids arbitrary: r)
  case Nil
  then have "r' = r\<lparr>msgs := msgs r @ []\<rparr> \<and> list_all (Q r) []" by simp
  then show ?case by blast
next
  case (Cons to ids)
  show ?case
  proof (cases "rid r = to \<and> sendMe = False")
    case True
    with Cons show ?thesis by simp
  next
    case False
    with Cons.prems obtain r1 where a: "f r to = Some r1"
      and b: "Visit ids f sendMe r1 = Some r'"
      by (auto split: Option.bind_splits)
    from f [OF a] obtain ms1 where r1: "r1 = r\<lparr>msgs := msgs r @ ms1\<rparr>"
      and q1: "list_all (Q r) ms1" by blast
    from Cons.IH [OF b] obtain ms2 where r': "r' = r1\<lparr>msgs := msgs r1 @ ms2\<rparr>"
      and q2: "list_all (Q r1) ms2" by blast
    from q2 have "list_all (Q r) ms2" by (simp add: r1 Q)
    with q1 have "list_all (Q r) (ms1 @ ms2)" by simp
    moreover from r1 r' have "r' = r\<lparr>msgs := msgs r @ (ms1 @ ms2)\<rparr>" by simp
    ultimately show ?thesis by blast
  qed
qed

lemma bcastAppend_extends:
  "bcastAppend h r = Some r' \<Longrightarrow> \<exists>ms. r' = r\<lparr>msgs := msgs r @ ms\<rparr>"
proof -
  assume a: "bcastAppend h r = Some r'"
  have "\<exists>ms. r' = r\<lparr>msgs := msgs r @ ms\<rparr> \<and> list_all ((\<lambda>r x. True) r) ms"
  proof (rule Visit_sends [where f = "\<lambda>r to. map_option snd (sendAppend r to)"])
    fix r to r'
    assume "map_option snd (sendAppend r to) = Some r'"
    then obtain b where "sendAppend r to = Some (b, r')" by auto
    from sendAppend_extends [OF this]
    show "\<exists>ms. r' = r\<lparr>msgs := msgs r @ ms\<rparr> \<and> list_all ((\<lambda>r x. True) r) ms"
      by (simp add: list_all_iff)
  next
    show "Visit (nodes h r) (\<lambda>r to. map_option snd (sendAppend r to)) False r = Some r'"
      using a by (simp add: bcastAppend_def)
  qed simp
  then show ?thesis by blast
qed

lemma leaderAppendEntries_committed:
  "leaderAppendEntries r es = Some (li, r') \<Longrightarrow> committed (RaftLog r') = committed (RaftLog r)"
  by (auto simp: leaderAppendEntries_def send_def Let_def log_append_def
      split: if_splits Option.bind_splits prod.splits)

lemma sendHeartbeat_sends:
  "sendHeartbeat r to = Some r' \<Longrightarrow>
   \<exists>pr. Prs r to = Some pr \<and>
     r' = r\<lparr>msgs := msgs r @ [Message0\<lparr>MsgType := MsgHeartbeat, To := to, From := rid r,
              msg_Term := Term r, Commit := min (Match pr) (committed (RaftLog r))\<rparr>]\<rparr>"
  by (auto simp: sendHeartbeat_def NewHeartbeatMsgCommit_def send_def Let_def Message0_def NoneId_def
      split: if_splits Option.bind_splits)

lemma Visit_sendHeartbeat:
  "Visit ids sendHeartbeat sendMe r = Some r' \<Longrightarrow>
   \<exists>ms. r' = r\<lparr>msgs := msgs r @ ms\<rparr> \<and>
     list_all (\<lambda>x. MsgType x = MsgHeartbeat \<and>
        (\<exists>pr. Prs r (To x) = Some pr \<and> Commit x = min (Match pr) (committed (RaftLog r))
           \<and> Commit x \<le> Match pr)) ms"
proof (rule Visit_sends [where f = sendHeartbeat and Q = "\<lambda>r x. MsgType x = MsgHeartbeat \<and>
        (\<exists>pr. Prs r (To x) = Some pr \<and> Commit x = min (Match pr) (committed (RaftLog r))
           \<and> Commit x \<le> Match pr)"])
  fix r to r'
  assume "sendHeartbeat r to = Some r'"
  from sendHeartbeat_sends [OF this] obtain pr where p: "Prs r to = Some pr"
    and r': "r' = r\<lparr>msgs := msgs r @ [Message0\<lparr>MsgType := MsgHeartbeat, To := to, From := rid r,
              msg_Term := Term r, Commit := min (Match pr) (committed (RaftLog r))\<rparr>]\<rparr>"
    by blast
  show "\<exists>ms. r' = r\<lparr>msgs := msgs r @ ms\<rparr> \<and> list_all (\<lambda>x. MsgType x = MsgHeartbeat \<and>
        (\<exists>pr. Prs r (To x) = Some pr \<and> Commit x = min (Match pr) (committed (RaftLog r))
           \<and> Commit x \<le> Match pr)) ms"
    by (rule exI [where x = "[Message0\<lparr>MsgType := MsgHeartbeat, To := to, From := rid r,
              msg_Term := Term r, Commit := min (Match pr) (committed (RaftLog r))\<rparr>]"])
       (simp add: r' p)
qed simp_all









section \<open>The leader answers its own appends\<close>

text \<open>
  Claim C10. Whenever the leader appends entries to its own log, an append response
  addressed to the node's own id is placed in the outbound buffer: directly by
  \<^verbatim>\<open>leaderAppendEntries\<close>, and therefore on promotion (\<^verbatim>\<open>becomeLeader\<close>, the no-op entry)
  and on every proposal (\<^verbatim>\<open>handleProse\<close>, where the broadcast follows it). The response
  carries the node's term and the new last index.
\<close>

theorem leader_append_sends_self_response:
  "(leaderAppendEntries r es = Some (li, r') \<longrightarrow>
      msgs r' = msgs r @ [Message0\<lparr>MsgType := MsgAppendResponse, To := rid r, From := rid r,
                            msg_Term := Term r, msg_Index := li, Reject := False\<rparr>])
   \<and> (becomeLeader r = Some r' \<longrightarrow>
      (\<exists>li. LastIndex (RaftLog r') = Some li \<and>
        msgs r' = msgs r @ [Message0\<lparr>MsgType := MsgAppendResponse, To := rid r, From := rid r,
                            msg_Term := Term r, msg_Index := li, Reject := False\<rparr>]))
   \<and> (handleProse h r m = Some r' \<longrightarrow>
      (\<exists>li ms. msgs r' = msgs r @ Message0\<lparr>MsgType := MsgAppendResponse, To := rid r,
                            From := rid r, msg_Term := Term r, msg_Index := li,
                            Reject := False\<rparr> # ms))"
proof (intro conjI impI)
  assume "leaderAppendEntries r es = Some (li, r')"
  then show "msgs r' = msgs r @ [Message0\<lparr>MsgType := MsgAppendResponse, To := rid r,
                 From := rid r, msg_Term := Term r, msg_Index := li, Reject := False\<rparr>]"
    by (rule leaderAppendEntries_msgs)
next
  assume a: "becomeLeader r = Some r'"
  define r1 where "r1 = r\<lparr>State := StateLeader, step := StepLeader, electionElapsed := 0,
                       Prs := (\<lambda>k. map_option (\<lambda>pr. pr\<lparr>Next := Match pr + 1\<rparr>) (Prs r k)),
                       Lead := rid r\<rparr>"
  from a obtain li where b: "leaderAppendEntries r1
      [\<lparr>ent_Term = Term r1, ent_Index = 1, ent_Data = []\<rparr>] = Some (li, r')"
    by (auto simp: becomeLeader_def Let_def r1_def split: if_splits)
  have "msgs r1 = msgs r" "rid r1 = rid r" "Term r1 = Term r" by (simp_all add: r1_def)
  with leaderAppendEntries_msgs [OF b] leaderAppendEntries_LastIndex [OF b]
  show "\<exists>li. LastIndex (RaftLog r') = Some li \<and>
        msgs r' = msgs r @ [Message0\<lparr>MsgType := MsgAppendResponse, To := rid r, From := rid r,
                            msg_Term := Term r, msg_Index := li, Reject := False\<rparr>]"
    by simp
next
  assume "handleProse h r m = Some r'"
  then obtain li r1 where b: "leaderAppendEntries r (Entries m) = Some (li, r1)"
    and c: "bcastAppend h r1 = Some r'"
    by (auto simp: handleProse_def split: Option.bind_splits)
  from bcastAppend_extends [OF c] obtain ms where "msgs r' = msgs r1 @ ms" by auto
  with leaderAppendEntries_msgs [OF b]
  show "\<exists>li ms. msgs r' = msgs r @ Message0\<lparr>MsgType := MsgAppendResponse, To := rid r,
           From := rid r, msg_Term := Term r, msg_Index := li, Reject := False\<rparr> # ms"
    by auto
qed

theorem leader_append_sends_self_response_witness:
  "(\<exists>li r'. leaderAppendEntries demo_leader (Entries demo_propose) = Some (li, r') \<and>
      msgs r' = [Message0\<lparr>MsgType := MsgAppendResponse, To := 1, From := 1, msg_Term := 1,
                   msg_Index := li, Reject := False\<rparr>])
   \<and> (\<exists>li r'. becomeLeader demo_candidate = Some r' \<and>
      msgs r' = [Message0\<lparr>MsgType := MsgAppendResponse, To := 1, From := 1, msg_Term := 2,
                   msg_Index := li, Reject := False\<rparr>])
   \<and> (\<exists>li ms r'. handleProse demo_helpers demo_leader demo_propose = Some r' \<and>
      msgs r' = Message0\<lparr>MsgType := MsgAppendResponse, To := 1, From := 1, msg_Term := 1,
                   msg_Index := li, Reject := False\<rparr> # ms)"
proof (intro conjI)
  have l: "rid demo_leader = 1" "Term demo_leader = 1" "msgs demo_leader = []"
    by (simp_all add: demo_leader_def)
  have c: "rid demo_candidate = 1" "Term demo_candidate = 2" "msgs demo_candidate = []"
    by (simp_all add: demo_candidate_def)
  {
    have "leaderAppendEntries demo_leader (Entries demo_propose) \<noteq> None" by code_simp
    then obtain li r' where a: "leaderAppendEntries demo_leader (Entries demo_propose) = Some (li, r')"
      by auto
    with leader_append_sends_self_response [of demo_leader "Entries demo_propose" li r']
    have "msgs r' = [Message0\<lparr>MsgType := MsgAppendResponse, To := 1, From := 1, msg_Term := 1,
                       msg_Index := li, Reject := False\<rparr>]"
      by (simp add: l)
    with a show "\<exists>li r'. leaderAppendEntries demo_leader (Entries demo_propose) = Some (li, r') \<and>
      msgs r' = [Message0\<lparr>MsgType := MsgAppendResponse, To := 1, From := 1, msg_Term := 1,
                   msg_Index := li, Reject := False\<rparr>]"
      by blast
  }
  {
    have "becomeLeader demo_candidate \<noteq> None" by code_simp
    then obtain r' where a: "becomeLeader demo_candidate = Some r'" by auto
    with leader_append_sends_self_response [of demo_candidate "[]" 0 r' demo_helpers demo_propose]
    obtain li where "msgs r' = [Message0\<lparr>MsgType := MsgAppendResponse, To := 1, From := 1,
                       msg_Term := 2, msg_Index := li, Reject := False\<rparr>]"
      by (auto simp: c)
    with a show "\<exists>li r'. becomeLeader demo_candidate = Some r' \<and>
      msgs r' = [Message0\<lparr>MsgType := MsgAppendResponse, To := 1, From := 1, msg_Term := 2,
                   msg_Index := li, Reject := False\<rparr>]"
      by blast
  }
  {
    have "handleProse demo_helpers demo_leader demo_propose \<noteq> None" by code_simp
    then obtain r' where a: "handleProse demo_helpers demo_leader demo_propose = Some r'" by auto
    with leader_append_sends_self_response [of demo_leader "[]" 0 r' demo_helpers demo_propose]
    obtain li ms where "msgs r' = Message0\<lparr>MsgType := MsgAppendResponse, To := 1, From := 1,
                       msg_Term := 1, msg_Index := li, Reject := False\<rparr> # ms"
      by (auto simp: l)
    with a show "\<exists>li ms r'. handleProse demo_helpers demo_leader demo_propose = Some r' \<and>
      msgs r' = Message0\<lparr>MsgType := MsgAppendResponse, To := 1, From := 1, msg_Term := 1,
                   msg_Index := li, Reject := False\<rparr> # ms"
      by blast
  }
qed


section \<open>Append responses at the leader\<close>




section \<open>The leader's commit index\<close>

text \<open>
  Claim C1, as amended. The leader does not recompute the commit index: whatever
  message \<^verbatim>\<open>stepLeader\<close> handles, \<open>committed\<close> is afterwards what it was, and an append
  response leaves the whole log untouched. So \<open>committed\<close> never advances to an entry
  of another term and never decreases, because at the leader it never moves.
\<close>

theorem stepLeader_keeps_commit:
  "stepLeader h r m = Some r' \<Longrightarrow>
     committed (RaftLog r') = committed (RaftLog r)
     \<and> (MsgType m = MsgAppendResponse \<longrightarrow> RaftLog r' = RaftLog r)"
proof -
  assume a: "stepLeader h r m = Some r'"
  then have s: "State r = StateLeader" by (auto simp: stepLeader_def split: if_splits)
  show ?thesis
  proof (cases "MsgType m")
    case MsgHeartbeat
    with a s have "Visit (nodes h r) sendHeartbeat False r = Some r'" by (simp add: stepLeader_def)
    from Visit_sendHeartbeat [OF this] MsgHeartbeat show ?thesis by auto
  next
    case MsgPropose
    with a s obtain li r1 where b: "leaderAppendEntries r (Entries m) = Some (li, r1)"
      and c: "bcastAppend h r1 = Some r'"
      by (auto simp: stepLeader_def handleProse_def split: Option.bind_splits)
    from bcastAppend_extends [OF c] leaderAppendEntries_committed [OF b] MsgPropose
    show ?thesis by auto
  next
    case MsgAppendResponse
    with a s show ?thesis
      by (auto simp: stepLeader_def Let_def split: if_splits Option.bind_splits)
  qed (use a s in \<open>auto simp: stepLeader_def\<close>)
qed

theorem stepLeader_keeps_commit_witness:
  "\<exists>r'. stepLeader demo_helpers demo_leader demo_accept = Some r'
      \<and> committed (RaftLog r') = 0 \<and> RaftLog r' = demo_log"
proof -
  have "stepLeader demo_helpers demo_leader demo_accept \<noteq> None" by code_simp
  then obtain r' where a: "stepLeader demo_helpers demo_leader demo_accept = Some r'" by auto
  have "MsgType demo_accept = MsgAppendResponse" by (simp add: demo_accept_def)
  with stepLeader_keeps_commit [OF a]
  have "committed (RaftLog r') = committed (RaftLog demo_leader)"
    "RaftLog r' = RaftLog demo_leader" by simp_all
  with a show ?thesis by (simp add: demo_leader_def demo_log_def)
qed

text \<open>
  The claim as stated fails: after peer 2 acknowledges entry 1, index 1 is above
  \<open>committed\<close>, is matched by two of the three peers and holds an entry of the leader's
  term, yet \<open>committed\<close> is still 0.
\<close>

theorem leader_commit_not_recomputed:
  "\<exists>r'. stepLeader demo_helpers demo_leader demo_accept = Some r'
     \<and> map_option Match (Prs r' 2) = Some 1
     \<and> commit_eligible r' 1 \<and> committed (RaftLog r') = 0"
proof -
  have a: "stepLeader demo_helpers demo_leader demo_accept =
     Some (demo_leader\<lparr>Prs := (Prs demo_leader)(2 \<mapsto> \<lparr>Match = 1, Next = 2\<rparr>)\<rparr>)"
    by (simp add: stepLeader_def demo_leader_def demo_accept_def Message0_def)
  have b: "commit_eligible (demo_leader\<lparr>Prs := (Prs demo_leader)(2 \<mapsto> \<lparr>Match = 1, Next = 2\<rparr>)\<rparr>) 1"
    by code_simp
  have c: "committed (RaftLog demo_leader) = 0" by (simp add: demo_leader_def demo_log_def)
  from a b c show ?thesis by simp
qed

section \<open>Heartbeats carry a clamped commit\<close>



section \<open>Receiving a heartbeat\<close>

text \<open>
  Claim C6. The claim wants \<open>Lead\<close> set to the sender. \<^verbatim>\<open>handleHeartbeat\<close> calls
  \<^verbatim>\<open>becomeFollower(m.Term, m.To)\<close>: the election timer is reset, but \<open>Lead\<close> becomes the
  receiver named in the message. At node 3, a heartbeat from node 1 (handled under the
  type \<^verbatim>\<open>MsgBeat\<close>) leaves \<open>Lead = 3\<close>; a message of type \<^verbatim>\<open>MsgHeartbeat\<close> of the
  node's own term reaches no case of \<^verbatim>\<open>stepFollower\<close> and changes neither \<open>Lead\<close> nor
  the timer.
\<close>

theorem heartbeat_sets_lead_to_receiver:
  "Lead (handleHeartbeat r m) = To m \<and> electionElapsed (handleHeartbeat r m) = 0
   \<and> map_option Lead (stepFollower demo_helpers demo_follower demo_beat) = Some 3
   \<and> From demo_beat = 1 \<and> rid demo_follower = 3
   \<and> map_option (\<lambda>r. (Lead r, electionElapsed r))
       (Step demo_helpers demo_follower (demo_beat\<lparr>MsgType := MsgHeartbeat\<rparr>)) = Some (0, 9)"
  by (simp add: stepFollower_def Step_def call_step_def handleHeartbeat_def becomeFollower_def
      demo_follower_def demo_beat_def Message0_def)

section \<open>The election timeout\<close>

text \<open>
  Claim C8. The claim wants an election started: a vote request to every other peer
  and the node's own vote recorded. \<^verbatim>\<open>tick\<close> calls \<^verbatim>\<open>becomeCandidate\<close> and nothing else
  (\<^verbatim>\<open>hup\<close>, which sends the requests and steps the node's own vote, is not called):
  the node becomes a candidate of the next term that has voted for itself, the outbound
  buffer stays as it was and the vote record is empty.
\<close>

theorem tick_election_sends_nothing:
  "map_option (\<lambda>r. (State r, Term r, Vote r, msgs r, votes r (rid r)))
      (tick demo_helpers demo_follower) = Some (StateCandidate, 6, 3, [], None)
   \<and> msgs (becomeCandidate r) = msgs r \<and> votes (becomeCandidate r) = Map.empty"
  by (simp add: tick_def becomeCandidate_def demo_follower_def Let_def)

section \<open>Becoming leader\<close>




section \<open>Construction from storage\<close>




section \<open>A follower accepts an append\<close>




section \<open>The vote\<close>




end
